theory Spec2Isabelle
  imports Complex_Main "HOL-Library.Sublist" "HOL-Library.Multiset"
begin

section \<open>Audio quality analysis and refinement (TTS voice-cloning tools)\<close>

text \<open>
  A shallow embedding of \<^verbatim>\<open>audio_quality_analyzer.py\<close> and
  \<^verbatim>\<open>audio_refinement_processor.py\<close>.

  Conventions of the embedding.
  \<^item> Python and numpy floats are modelled as \<^typ>\<open>real\<close>: rounding of the binary
    floating-point operations is not modelled. Where numpy yields \<^verbatim>\<open>nan\<close> (the mean
    of an empty array) the model uses \<^typ>\<open>real option\<close> with \<^term>\<open>None\<close> for nan.
  \<^item> A Python exception (a subclass of \<^verbatim>\<open>Exception\<close>) is a value of type \<open>exn\<close>;
    a call that can raise returns \<open>exn + 'a\<close> with \<^term>\<open>Inl\<close> for the exception.
  \<^item> The heavy signal-processing calls of librosa (decoding, RMS, zero crossings,
    spectral descriptors, HPSS, trimming, the STFT gate, resampling) are parameters,
    collected in a record; the small numpy operations the repository's own
    logic depends on (percentile, mean, max, argmax, framing, slicing) are modelled.
\<close>

subsection \<open>Exceptions\<close>

datatype exn =
    ParameterError      \<comment> \<open>librosa.util.exceptions.ParameterError\<close>
  | ValueError
  | IndexError
  | ZeroDivisionError
  | FileNotFoundError
  | DecodeError         \<comment> \<open>an undecodable audio file\<close>
  | LibraryError        \<comment> \<open>any other exception raised inside a library call\<close>

subsection \<open>numpy and librosa operations used by the repository's own logic\<close>

text \<open>
  \<^verbatim>\<open>np.mean\<close>: the arithmetic mean. Of an empty array numpy returns nan (with a
  warning, no exception): \<open>np_mean\<close> returns \<^term>\<open>None\<close> there. \<open>mean\<close> is the
  value for a non-empty array.
\<close>

definition mean :: "real list \<Rightarrow> real" where
  "mean xs = sum_list xs / real (length xs)"

definition np_mean :: "real list \<Rightarrow> real option" where
  "np_mean xs = (if xs = [] then None else Some (mean xs))"

definition np_std :: "real list \<Rightarrow> real option" where
  "np_std xs =
     (if xs = [] then None else Some (sqrt (mean (map (\<lambda>x. (x - mean xs) ^ 2) xs))))"

text \<open>
  \<^verbatim>\<open>np.percentile(a, q)\<close> with numpy's default method (linear interpolation between
  the two closest ranks of the sorted data, virtual index \<open>(n - 1) * q / 100\<close>). It
  raises for \<open>q\<close> outside [0, 100] and for an empty array.
\<close>

definition np_percentile :: "real list \<Rightarrow> real \<Rightarrow> exn + real" where
  "np_percentile a q =
     (if q < 0 \<or> q > 100 then Inl ValueError
      else if a = [] then Inl IndexError
      else
        let s = sort a;
            n = length s;
            virtual_index = (real n - 1) * (q / 100);
            previous_index = nat \<lfloor>virtual_index\<rfloor>;
            next_index = min (previous_index + 1) (n - 1);
            gamma = virtual_index - real previous_index
        in Inr (s ! previous_index + gamma * (s ! next_index - s ! previous_index)))"

text \<open>
  \<^verbatim>\<open>np.argmax\<close> of a boolean array: the index of the first \<^verbatim>\<open>True\<close>, and 0 when
  there is none.
\<close>

definition np_argmax :: "bool list \<Rightarrow> nat" where
  "np_argmax bs = (if True \<in> set bs then length (takeWhile Not bs) else 0)"

text \<open>
  \<^verbatim>\<open>librosa.util.frame(y, frame_length, hop_length)\<close>: the overlapping frames of
  \<open>y\<close>, frame \<open>i\<close> being \<open>y[i * hop_length : i * hop_length + frame_length]\<close>; there are
  \<open>1 + (len(y) - frame_length) // hop_length\<close> of them and the trailing partial frame is
  dropped. librosa raises \<^verbatim>\<open>ParameterError\<close> when the input is shorter than
  \<open>frame_length\<close> ("Input is too short") and when \<open>hop_length < 1\<close>.
\<close>

definition librosa_util_frame :: "real list \<Rightarrow> nat \<Rightarrow> nat \<Rightarrow> exn + real list list" where
  "librosa_util_frame y frame_length hop_length =
     (if length y < frame_length \<or> hop_length < 1 then Inl ParameterError
      else Inr (map (\<lambda>i. take frame_length (drop (i * hop_length) y))
                  [0 ..< 1 + (length y - frame_length) div hop_length]))"

text \<open>\<^verbatim>\<open>np.sum(frames ** 2, axis=0)\<close>: the energy of each frame.\<close>

definition frame_energy_of :: "real list list \<Rightarrow> real list" where
  "frame_energy_of frames = map (\<lambda>f. sum_list (map (\<lambda>x. x ^ 2) f)) frames"

subsection \<open>Quality layer 2: the SNR estimate\<close>

text \<open>
  Lines 84--92 of \<^verbatim>\<open>analyze_audio_file\<close>. The mean is taken only under the guard
  \<^verbatim>\<open>len(speech_energy) > 0\<close>.
\<close>

definition compute_snr_estimate :: "real list \<Rightarrow> exn + real" where
  "compute_snr_estimate rms =
     (case np_percentile rms 10 of
        Inl e \<Rightarrow> Inl e
      | Inr energy_threshold \<Rightarrow>
          (let speech_energy = filter (\<lambda>e. e > energy_threshold * 2) rms in
           if length speech_energy > 0
           then Inr (mean speech_energy / (energy_threshold + 1 / 10 ^ 10))
           else Inr 0))"

text \<open>
  \<^verbatim>\<open>estimateSNR\<close> as the specification words it (section 4.2), given the noise
  floor: speech frames are those with energy above twice the noise floor; if any
  exist the estimate is their mean over the noise floor plus epsilon, else 0.
\<close>

definition spec_estimateSNR :: "real \<Rightarrow> real list \<Rightarrow> real" where
  "spec_estimateSNR noise_floor rmsSeries =
     (if \<exists>e \<in> set rmsSeries. e > 2 * noise_floor
      then (sum_list [e \<leftarrow> rmsSeries. e > 2 * noise_floor]
              / real (length [e \<leftarrow> rmsSeries. e > 2 * noise_floor]))
           / (noise_floor + 1 / 10 ^ 10)
      else 0)"

subsection \<open>Quality layer 5: effective duration and silence ratio\<close>

text \<open>
  Lines 121--139 of \<^verbatim>\<open>analyze_audio_file\<close>, as a function of the buffer \<open>y\<close>, the
  sample rate \<open>sr\<close> and \<open>duration = len(y) / sr\<close>. The result is the pair
  (\<^verbatim>\<open>effective_duration\<close>, \<^verbatim>\<open>silence_ratio\<close>).
\<close>

definition compute_silence :: "real list \<Rightarrow> nat \<Rightarrow> real \<Rightarrow> exn + (real \<times> real)" where
  "compute_silence y sr duration =
     (let frame_length = 2048; hop_length = 512 in
      case librosa_util_frame y frame_length hop_length of
        Inl e \<Rightarrow> Inl e
      | Inr frames \<Rightarrow>
          (let frame_energy = frame_energy_of frames in
           case np_percentile frame_energy 20 of
             Inl e \<Rightarrow> Inl e
           | Inr energy_threshold \<Rightarrow>
               (let speech_frames = map (\<lambda>e. e > energy_threshold) frame_energy in
                if True \<in> set speech_frames
                then
                  (let speech_start = real (np_argmax speech_frames * hop_length) / real sr;
                       speech_end =
                         real ((length speech_frames - np_argmax (rev speech_frames)) * hop_length)
                           / real sr;
                       effective_duration = speech_end - speech_start
                   in Inr (effective_duration, 1 - effective_duration / duration))
                else Inr (0, 1))))"

text \<open>
  \<^verbatim>\<open>silenceMetrics\<close> as the specification words it (section 4.2), given the
  per-frame energies and the threshold: with no frame above the threshold the result
  is (0, 1); otherwise the effective duration is (last speech frame index minus first
  speech frame index) times the hop length over the sample rate.
\<close>

definition first_speech_frame_index :: "real list \<Rightarrow> real \<Rightarrow> nat" where
  "first_speech_frame_index energy threshold = length (takeWhile (\<lambda>e. \<not> e > threshold) energy)"

definition last_speech_frame_index :: "real list \<Rightarrow> real \<Rightarrow> nat" where
  "last_speech_frame_index energy threshold =
     length energy - 1 - length (takeWhile (\<lambda>e. \<not> e > threshold) (rev energy))"

definition spec_silenceMetrics :: "real list \<Rightarrow> real \<Rightarrow> nat \<Rightarrow> real \<Rightarrow> real \<times> real" where
  "spec_silenceMetrics energy threshold sr total_duration =
     (if \<exists>e \<in> set energy. e > threshold
      then
        (let effective_duration =
               (real (last_speech_frame_index energy threshold)
                  - real (first_speech_frame_index energy threshold)) * 512 / real sr
         in (effective_duration, 1 - effective_duration / total_duration))
      else (0, 1))"

text \<open>A buffer of 2560 samples (two frames), silent but for one sample in the second frame.\<close>

definition late_click :: "real list" where
  "late_click = replicate 2100 0 @ [1] @ replicate 459 0"

subsection \<open>Files and the external library\<close>

text \<open>
  A file is either decodable audio (its mono samples and its sample rate) or something
  \<^verbatim>\<open>librosa.load\<close> cannot decode. The file system maps paths to files.
\<close>

datatype audio_file = Audio "real list" nat | Undecodable

type_synonym fs = "string \<rightharpoonup> audio_file"

definition librosa_load :: "fs \<Rightarrow> string \<Rightarrow> exn + (real list \<times> nat)" where
  "librosa_load files path =
     (case files path of
        None \<Rightarrow> Inl FileNotFoundError
      | Some Undecodable \<Rightarrow> Inl DecodeError
      | Some (Audio y sr) \<Rightarrow> Inr (y, sr))"

text \<open>
  The library calls whose internals are outside the repository. Each may raise.
  \<open>spectral_gate\<close> stands for the body of stage 3 between loading and writing (STFT,
  noise floor, gating, inverse STFT, and the import of scipy).
\<close>

record library =
  st_size :: "audio_file \<Rightarrow> nat"
  path_name :: "string \<Rightarrow> string"
  path_stem :: "string \<Rightarrow> string"
  feature_rms :: "real list \<Rightarrow> exn + real list"
  feature_zero_crossing_rate :: "real list \<Rightarrow> exn + real list"
  feature_spectral_centroid :: "real list \<Rightarrow> nat \<Rightarrow> exn + real list"
  feature_spectral_rolloff :: "real list \<Rightarrow> nat \<Rightarrow> exn + real list"
  feature_spectral_bandwidth :: "real list \<Rightarrow> nat \<Rightarrow> exn + real list"
  effects_hpss :: "real list \<Rightarrow> exn + (real list \<times> real list)"
  effects_trim :: "real list \<Rightarrow> exn + real list"
  spectral_gate :: "real list \<Rightarrow> nat \<Rightarrow> exn + real list"
  resample :: "real list \<Rightarrow> nat \<Rightarrow> nat \<Rightarrow> exn + real list"

subsection \<open>Quality layer 4: the harmonic-to-noise ratio\<close>

text \<open>
  Lines 108--116: the inner \<^verbatim>\<open>try\<close> with its bare \<^verbatim>\<open>except\<close>, which turns any
  failure of the decomposition into the value 1.0.
\<close>

definition compute_harmonic_noise_ratio :: "library \<Rightarrow> real list \<Rightarrow> real" where
  "compute_harmonic_noise_ratio lib y =
     (case effects_hpss lib y of
        Inl e \<Rightarrow> 1
      | Inr (y_harmonic, y_percussive) \<Rightarrow>
          (let harmonic_energy = sum_list (map (\<lambda>x. x ^ 2) y_harmonic);
               percussive_energy = sum_list (map (\<lambda>x. x ^ 2) y_percussive)
           in harmonic_energy / (percussive_energy + 1 / 10 ^ 10)))"

subsection \<open>Quality layer 6: the composite quality score\<close>

text \<open>
  Lines 144--185 of \<^verbatim>\<open>analyze_audio_file\<close>: \<^verbatim>\<open>quality_score = 0.0\<close> followed by
  four \<^verbatim>\<open>if/elif/else\<close> chains, each adding its points to the running total.
\<close>

definition compute_quality_score :: "real \<Rightarrow> real \<Rightarrow> real \<Rightarrow> real \<Rightarrow> real" where
  "compute_quality_score duration snr_estimate harmonic_noise_ratio silence_ratio =
    (let quality_score = 0;
         quality_score =
           (if duration \<ge> 10 then quality_score + 25
            else if duration \<ge> 5 then quality_score + 20
            else if duration \<ge> 3 then quality_score + 15
            else quality_score + 5);
         quality_score =
           (if snr_estimate > 20 then quality_score + 25
            else if snr_estimate > 10 then quality_score + 20
            else if snr_estimate > 5 then quality_score + 15
            else quality_score + 5);
         quality_score =
           (if harmonic_noise_ratio > 2 then quality_score + 25
            else if harmonic_noise_ratio > 1 then quality_score + 20
            else quality_score + 10);
         quality_score =
           (if silence_ratio < 1 / 10 then quality_score + 25
            else if silence_ratio < 3 / 10 then quality_score + 20
            else if silence_ratio < 1 / 2 then quality_score + 15
            else quality_score + 5)
     in quality_score)"

text \<open>
  The four bucket terms as the specification words them (section 4.2,
  \<^verbatim>\<open>compositeScore\<close>), for comparison with the code above.
\<close>

definition spec_duration_bucket :: "real \<Rightarrow> real" where
  "spec_duration_bucket d = (if d \<ge> 10 then 25 else if d \<ge> 5 then 20 else if d \<ge> 3 then 15 else 5)"

definition spec_snr_bucket :: "real \<Rightarrow> real" where
  "spec_snr_bucket s = (if s > 20 then 25 else if s > 10 then 20 else if s > 5 then 15 else 5)"

definition spec_harmonic_bucket :: "real \<Rightarrow> real" where
  "spec_harmonic_bucket h = (if h > 2 then 25 else if h > 1 then 20 else 10)"

definition spec_silence_bucket :: "real \<Rightarrow> real" where
  "spec_silence_bucket r =
     (if r < 1 / 10 then 25 else if r < 3 / 10 then 20 else if r < 1 / 2 then 15 else 5)"

definition spec_compositeScore :: "real \<Rightarrow> real \<Rightarrow> real \<Rightarrow> real \<Rightarrow> real" where
  "spec_compositeScore d s h r =
     spec_duration_bucket d + spec_snr_bucket s + spec_harmonic_bucket h + spec_silence_bucket r"

subsection \<open>Quality records and the corpus filter\<close>

text \<open>
  The dictionary \<^verbatim>\<open>metrics\<close> built by \<^verbatim>\<open>analyze_audio_file\<close>. The aggregated
  means and deviations are \<^typ>\<open>real option\<close> because numpy returns nan for an empty
  series.
\<close>

record metrics =
  file_path :: string   \<comment> \<open>the key \<^verbatim>\<open>file\<close> (a reserved word here)\<close>
  filename :: string
  sample_rate :: nat
  duration :: real
  file_size_mb :: real
  num_samples :: nat
  rms_mean :: "real option"
  rms_std :: "real option"
  zcr_mean :: "real option"
  zcr_std :: "real option"
  spectral_centroid_mean :: "real option"
  snr_estimate :: real
  spectral_rolloff_mean :: "real option"
  spectral_bandwidth_mean :: "real option"
  harmonic_noise_ratio :: real
  effective_duration :: real
  silence_ratio :: real
  quality_score :: real

subsection \<open>The analysis of one file and of a directory\<close>

text \<open>
  The body of the outer \<^verbatim>\<open>try\<close> of \<^verbatim>\<open>analyze_audio_file\<close> (lines 41--193), in
  the order of the source. \<^verbatim>\<open>len(y) / sr\<close> raises \<^verbatim>\<open>ZeroDivisionError\<close> for a zero
  sample rate.
\<close>

definition analyze_body :: "library \<Rightarrow> fs \<Rightarrow> string \<Rightarrow> exn + metrics" where
  "analyze_body lib files audio_path =
     (case librosa_load files audio_path of Inl e \<Rightarrow> Inl e | Inr (y, sr) \<Rightarrow>
     (if sr = 0 then Inl ZeroDivisionError else
     (let duration = real (length y) / real sr in
     (case files audio_path of None \<Rightarrow> Inl FileNotFoundError | Some f \<Rightarrow>
     (let file_size = st_size lib f in
     (case feature_rms lib y of Inl e \<Rightarrow> Inl e | Inr rms \<Rightarrow>
     (case feature_zero_crossing_rate lib y of Inl e \<Rightarrow> Inl e | Inr zcr \<Rightarrow>
     (case feature_spectral_centroid lib y sr of Inl e \<Rightarrow> Inl e | Inr spectral_centroids \<Rightarrow>
     (case compute_snr_estimate rms of Inl e \<Rightarrow> Inl e | Inr snr \<Rightarrow>
     (case feature_spectral_rolloff lib y sr of Inl e \<Rightarrow> Inl e | Inr rolloff \<Rightarrow>
     (case feature_spectral_bandwidth lib y sr of Inl e \<Rightarrow> Inl e | Inr bandwidth \<Rightarrow>
     (let hnr = compute_harmonic_noise_ratio lib y in
     (case compute_silence y sr duration of Inl e \<Rightarrow> Inl e | Inr (effective, silence) \<Rightarrow>
      Inr \<lparr> file_path = audio_path,
            filename = path_name lib audio_path,
            sample_rate = sr,
            duration = duration,
            file_size_mb = real file_size / (1024 * 1024),
            num_samples = length y,
            rms_mean = np_mean rms,
            rms_std = np_std rms,
            zcr_mean = np_mean zcr,
            zcr_std = np_std zcr,
            spectral_centroid_mean = np_mean spectral_centroids,
            snr_estimate = snr,
            spectral_rolloff_mean = np_mean rolloff,
            spectral_bandwidth_mean = np_mean bandwidth,
            harmonic_noise_ratio = hnr,
            effective_duration = effective,
            silence_ratio = silence,
            quality_score = compute_quality_score duration snr hnr silence \<rparr>
     )))))))))))))"

text \<open>
  \<^verbatim>\<open>analyze_audio_file\<close>: the \<^verbatim>\<open>except Exception\<close> of lines 195--199 returns
  \<^verbatim>\<open>None\<close>.
\<close>

definition analyze_audio_file :: "library \<Rightarrow> fs \<Rightarrow> string \<Rightarrow> metrics option" where
  "analyze_audio_file lib files audio_path =
     (case analyze_body lib files audio_path of Inl e \<Rightarrow> None | Inr m \<Rightarrow> Some m)"

text \<open>
  \<^verbatim>\<open>analyze_all_audio\<close> (lines 201--244). The inputs are whether the directory
  exists and the audio files the globbing found; the state is \<^verbatim>\<open>self.results\<close>. The
  result is the state after the call and the returned list. \<^verbatim>\<open>if metrics:\<close> holds
  for every record, a non-empty dictionary. \<^verbatim>\<open>list.sort\<close> with a key and
  \<^verbatim>\<open>reverse=True\<close> is stable: records of equal score keep their order.
\<close>

definition analyze_step :: "library \<Rightarrow> fs \<Rightarrow> metrics list \<Rightarrow> string \<Rightarrow> metrics list" where
  "analyze_step lib files results audio_file =
     (case analyze_audio_file lib files audio_file of
        Some m \<Rightarrow> results @ [m]
      | None \<Rightarrow> results)"

definition analyze_all_audio ::
  "library \<Rightarrow> fs \<Rightarrow> bool \<Rightarrow> string list \<Rightarrow> metrics list \<Rightarrow> metrics list \<times> metrics list" where
  "analyze_all_audio lib files audio_dir_exists audio_files results =
     (if \<not> audio_dir_exists then (results, [])
      else
        let results = foldl (analyze_step lib files) results audio_files;
            results = sort_key (\<lambda>x. - quality_score x) results
        in (results, results))"

text \<open>
  The steps of the analysis that raise into the outer handler, as one predicate:
  decoding, the division by the sample rate, each feature call, the percentile of an
  empty RMS series, and framing a buffer shorter than one frame. The harmonic
  decomposition is not among them: its failure is absorbed by the inner handler.
\<close>

definition raises_outside_hpss :: "library \<Rightarrow> fs \<Rightarrow> string \<Rightarrow> bool" where
  "raises_outside_hpss lib files audio_path =
     (case librosa_load files audio_path of
        Inl e \<Rightarrow> True
      | Inr (y, sr) \<Rightarrow>
          sr = 0
        \<or> isl (feature_rms lib y) \<or> feature_rms lib y = Inr []
        \<or> isl (feature_zero_crossing_rate lib y)
        \<or> isl (feature_spectral_centroid lib y sr)
        \<or> isl (feature_spectral_rolloff lib y sr)
        \<or> isl (feature_spectral_bandwidth lib y sr)
        \<or> length y < 2048)"

text \<open>
  Two instances of the library for concrete runs: one in which every call succeeds
  (features of a single zero frame, trimming, gating and resampling the identity),
  and one in which the harmonic decomposition and the spectral gate raise.
\<close>

definition stub_library :: library where
  "stub_library =
     \<lparr> st_size = (\<lambda>f. 0),
       path_name = (\<lambda>p. p),
       path_stem = (\<lambda>p. takeWhile (\<lambda>c. c \<noteq> CHR ''.'') p),
       feature_rms = (\<lambda>y. Inr [0]),
       feature_zero_crossing_rate = (\<lambda>y. Inr [0]),
       feature_spectral_centroid = (\<lambda>y sr. Inr [0]),
       feature_spectral_rolloff = (\<lambda>y sr. Inr [0]),
       feature_spectral_bandwidth = (\<lambda>y sr. Inr [0]),
       effects_hpss = (\<lambda>y. Inr (y, [])),
       effects_trim = (\<lambda>y. Inr y),
       spectral_gate = (\<lambda>y sr. Inr y),
       resample = (\<lambda>y orig_sr target_sr. Inr y) \<rparr>"

definition failing_library :: library where
  "failing_library =
     stub_library \<lparr> effects_hpss := (\<lambda>y. Inl LibraryError),
                    spectral_gate := (\<lambda>y sr. Inl LibraryError) \<rparr>"

text \<open>
  A directory with a two-frame clip, a clip shorter than a frame and an all-zero clip
  of five frames.
\<close>

definition demo_files :: fs where
  "demo_files =
     [''clip.wav'' \<mapsto> Audio late_click 22050,
      ''short.wav'' \<mapsto> Audio (replicate 100 0) 22050,
      ''silence.wav'' \<mapsto> Audio (replicate 4096 0) 22050]"

text \<open>
  \<^verbatim>\<open>filter_high_quality\<close> (lines 246--273): the loop over \<^verbatim>\<open>self.results\<close> that
  appends the passing records to a fresh list. The analyzer's state is its list
  \<^verbatim>\<open>self.results\<close>; the function returns the state after the call and the list.
\<close>

definition filter_step :: "real \<Rightarrow> real \<Rightarrow> real \<Rightarrow> metrics list \<Rightarrow> metrics \<Rightarrow> metrics list" where
  "filter_step min_score min_duration max_silence filtered result =
     (if quality_score result \<ge> min_score \<and>
         duration result \<ge> min_duration \<and>
         silence_ratio result \<le> max_silence
      then filtered @ [result] else filtered)"

definition filter_high_quality ::
  "metrics list \<Rightarrow> real \<Rightarrow> real \<Rightarrow> real \<Rightarrow> metrics list \<times> metrics list" where
  "filter_high_quality results min_score min_duration max_silence =
     (results, foldl (filter_step min_score min_duration max_silence) [] results)"

definition passes :: "real \<Rightarrow> real \<Rightarrow> real \<Rightarrow> metrics \<Rightarrow> bool" where
  "passes min_score min_duration max_silence r \<longleftrightarrow>
     quality_score r \<ge> min_score \<and> duration r \<ge> min_duration \<and> silence_ratio r \<le> max_silence"

subsection \<open>Python and file operations of the refinement stages\<close>




text \<open>\<^verbatim>\<open>np.max\<close> raises \<^verbatim>\<open>ValueError\<close> on an empty array.\<close>

definition np_max :: "real list \<Rightarrow> exn + real" where
  "np_max xs = (case xs of [] \<Rightarrow> Inl ValueError | x # rest \<Rightarrow> Inr (fold max rest x))"



subsection \<open>Stage 1: normalisation\<close>



subsection \<open>Stages 2, 3 and 4\<close>





subsection \<open>Stage 5: the best segment\<close>






subsection \<open>The pipeline\<close>













section \<open>Properties\<close>

subsection \<open>The composite score\<close>

lemma compute_quality_score_buckets:
  "compute_quality_score d s h r = spec_compositeScore d s h r"
  by (simp add: compute_quality_score_def spec_compositeScore_def spec_duration_bucket_def
      spec_snr_bucket_def spec_harmonic_bucket_def spec_silence_bucket_def Let_def)

lemma spec_duration_bucket_range: "5 \<le> spec_duration_bucket d \<and> spec_duration_bucket d \<le> 25"
  by (simp add: spec_duration_bucket_def)

lemma spec_snr_bucket_range: "5 \<le> spec_snr_bucket s \<and> spec_snr_bucket s \<le> 25"
  by (simp add: spec_snr_bucket_def)

lemma spec_harmonic_bucket_range: "10 \<le> spec_harmonic_bucket h \<and> spec_harmonic_bucket h \<le> 25"
  by (simp add: spec_harmonic_bucket_def)

lemma spec_silence_bucket_range: "5 \<le> spec_silence_bucket r \<and> spec_silence_bucket r \<le> 25"
  by (simp add: spec_silence_bucket_def)

lemma compute_quality_score_range:
  "25 \<le> compute_quality_score d s h r \<and> compute_quality_score d s h r \<le> 100"
  using spec_duration_bucket_range [of d] spec_snr_bucket_range [of s]
    spec_harmonic_bucket_range [of h] spec_silence_bucket_range [of r]
  by (simp add: compute_quality_score_buckets spec_compositeScore_def)

lemma compute_quality_score_scenario_B: "compute_quality_score 11 25 (5 / 2) (1 / 20) = 100"
  by (simp add: compute_quality_score_def)

lemma compute_quality_score_scenario_C: "compute_quality_score 2 1 (1 / 2) (9 / 10) = 25"
  by (simp add: compute_quality_score_def)

text \<open>
  Claim C2 as stated says that the attainable scores range over exactly [20, 100], the
  minimum being the sum of the minimum buckets, 20. The smallest buckets are 5, 5, 10
  and 5, so no input scores 20: the value 20 is not in the range of the score.
\<close>

theorem C2_score_20_not_attained:
  "20 \<notin> range (\<lambda>(d, s, h, r). compute_quality_score d s h r)"
proof
  assume "20 \<in> range (\<lambda>(d, s, h, r). compute_quality_score d s h r)"
  then obtain d s h r where "compute_quality_score d s h r = 20" by auto
  with compute_quality_score_range [of d s h r] show False by simp
qed

text \<open>
  Claim C2, amended. The attainable scores range over exactly [25, 100]: every score is
  at least 25 (the sum 5 + 5 + 10 + 5 of the minimum buckets) and at most 100, both
  bounds are attained, and the score is the plain sum of the bucket terms with no
  normalisation.
\<close>

theorem C2_score_range_25_100:
  "(\<forall>d s h r. 25 \<le> compute_quality_score d s h r \<and> compute_quality_score d s h r \<le> 100
       \<and> compute_quality_score d s h r = spec_compositeScore d s h r)
   \<and> compute_quality_score 0 0 0 1 = 25
   \<and> compute_quality_score 10 21 3 0 = 100"
proof -
  have "compute_quality_score 0 0 0 1 = 25" "compute_quality_score 10 21 3 0 = 100"
    by (simp_all add: compute_quality_score_def)
  then show ?thesis
    using compute_quality_score_range compute_quality_score_buckets by simp
qed

subsection \<open>The SNR estimate\<close>

lemma compute_snr_estimate_spec:
  "compute_snr_estimate rms =
     (case np_percentile rms 10 of
        Inl e \<Rightarrow> Inl e
      | Inr noise_floor \<Rightarrow> Inr (spec_estimateSNR noise_floor rms))"
  by (auto simp add: compute_snr_estimate_def spec_estimateSNR_def mean_def Let_def mult.commute
      filter_empty_conv split: sum.splits)

lemma np_percentile_ok: "a \<noteq> [] \<Longrightarrow> 0 \<le> q \<Longrightarrow> q \<le> 100 \<Longrightarrow> \<exists>v. np_percentile a q = Inr v"
  by (simp add: np_percentile_def Let_def)


text \<open>
  Claim C3. For every per-frame RMS series the SNR estimate is computed from the 10th
  percentile of the series as noise floor: the speech frames are those strictly above
  twice the noise floor; if there is one, the estimate is their mean divided by the
  noise floor plus 1e-10, otherwise it is 0. The percentile exists for every
  non-empty series (librosa's RMS series always has a frame).
\<close>

theorem C3_snr_estimate:
  "compute_snr_estimate rms =
     (case np_percentile rms 10 of
        Inl e \<Rightarrow> Inl e
      | Inr noise_floor \<Rightarrow> Inr (spec_estimateSNR noise_floor rms))
   \<and> (rms \<noteq> [] \<longrightarrow> (\<exists>noise_floor. np_percentile rms 10 = Inr noise_floor))"
  using compute_snr_estimate_spec [of rms] np_percentile_ok [of rms 10] by simp

theorem C3_snr_estimate_witness:
  "[0, 1, 1, 1, 1, 1, 1, 1, 1, 10 :: real] \<noteq> []
   \<and> np_percentile [0, 1, 1, 1, 1, 1, 1, 1, 1, 10] 10 = Inr (9 / 10)
   \<and> compute_snr_estimate [0, 1, 1, 1, 1, 1, 1, 1, 1, 10] = Inr (100000000000 / 9000000001)"
  using C3_snr_estimate [of "[0, 1, 1, 1, 1, 1, 1, 1, 1, 10]"]
  by (simp add: np_percentile_def spec_estimateSNR_def)

subsection \<open>Effective duration and silence ratio\<close>

lemma late_click_frames: "librosa_util_frame late_click 2048 512 = Inr [replicate 2048 0, replicate 1588 0 @ 1 # replicate 459 0]"
  by (simp add: librosa_util_frame_def late_click_def upt_rec)

lemma late_click_energy: "frame_energy_of [replicate 2048 0, replicate 1588 0 @ 1 # replicate 459 0] = [0, 1]"
  by (simp add: frame_energy_of_def sum_list_replicate)

lemma percentile_0_1: "np_percentile [0, 1] 20 = Inr (1 / 5)"
  by (simp add: np_percentile_def)

lemma librosa_util_frame_ok:
  "frame_length \<le> length y \<Longrightarrow> 1 \<le> hop_length \<Longrightarrow>
   \<exists>frames. librosa_util_frame y frame_length hop_length = Inr frames \<and> frames \<noteq> []
     \<and> length frames = 1 + (length y - frame_length) div hop_length"
  by (simp add: librosa_util_frame_def)

lemma np_argmax_map:
  "\<exists>x \<in> set xs. P x \<Longrightarrow> np_argmax (map P xs) = length (takeWhile (\<lambda>x. \<not> P x) xs)"
  by (auto simp add: np_argmax_def takeWhile_map comp_def)

lemma takeWhile_not_short:
  "\<exists>x \<in> set xs. P x \<Longrightarrow> length (takeWhile (\<lambda>x. \<not> P x) xs) < length xs"
  by (induction xs) auto

lemma first_speech_frame_index_props:
  assumes "\<exists>e \<in> set energy. e > t"
  shows "first_speech_frame_index energy t < length energy"
    and "energy ! first_speech_frame_index energy t > t"
    and "\<forall>i < first_speech_frame_index energy t. \<not> energy ! i > t"
proof -
  let ?k = "length (takeWhile (\<lambda>e. \<not> e > t) energy)"
  show a: "first_speech_frame_index energy t < length energy"
    using takeWhile_not_short [of energy "\<lambda>e. e > t"] assms
    by (simp add: first_speech_frame_index_def)
  show "energy ! first_speech_frame_index energy t > t"
    using nth_length_takeWhile [of "\<lambda>e. \<not> e > t" energy] a
    by (simp add: first_speech_frame_index_def)
  show "\<forall>i < first_speech_frame_index energy t. \<not> energy ! i > t"
    using nth_mem [of _ "takeWhile (\<lambda>e. \<not> e > t) energy"] set_takeWhileD [of _ "\<lambda>e. \<not> e > t" energy]
    by (metis first_speech_frame_index_def takeWhile_nth)
qed

lemma last_speech_frame_index_props:
  assumes "\<exists>e \<in> set energy. e > t"
  shows "last_speech_frame_index energy t < length energy"
    and "energy ! last_speech_frame_index energy t > t"
    and "\<forall>i. last_speech_frame_index energy t < i \<and> i < length energy \<longrightarrow> \<not> energy ! i > t"
proof -
  let ?r = "rev energy"
  let ?k = "first_speech_frame_index ?r t"
  have ex: "\<exists>e \<in> set ?r. e > t" using assms by simp
  have k: "?k < length energy" using first_speech_frame_index_props(1) [OF ex] by simp
  have l: "last_speech_frame_index energy t = length energy - 1 - ?k"
    by (simp add: last_speech_frame_index_def first_speech_frame_index_def)
  show "last_speech_frame_index energy t < length energy" using k l by simp
  have "?r ! ?k > t" using first_speech_frame_index_props(2) [OF ex] .
  then show "energy ! last_speech_frame_index energy t > t"
    using k l by (simp add: rev_nth)
  show "\<forall>i. last_speech_frame_index energy t < i \<and> i < length energy \<longrightarrow> \<not> energy ! i > t"
  proof (intro allI impI)
    fix i assume i: "last_speech_frame_index energy t < i \<and> i < length energy"
    then have j: "length energy - 1 - i < ?k" using k l by linarith
    have "\<not> ?r ! (length energy - 1 - i) > t"
      using first_speech_frame_index_props(3) [OF ex] j by blast
    moreover have "?r ! (length energy - 1 - i) = energy ! i"
    proof -
      have "length energy - 1 - i < length energy" using i by linarith
      moreover have "length energy - Suc (length energy - 1 - i) = i" using i by linarith
      ultimately show ?thesis using rev_nth [of "length energy - 1 - i" energy] by simp
    qed
    ultimately show "\<not> energy ! i > t" by simp
  qed
qed

lemma compute_silence_indices:
  assumes len: "2048 \<le> length y"
  shows "\<exists>frames thr.
           librosa_util_frame y 2048 512 = Inr frames
         \<and> np_percentile (frame_energy_of frames) 20 = Inr thr
         \<and> compute_silence y sr dur =
             Inr (if \<exists>e \<in> set (frame_energy_of frames). e > thr
                  then ((real (last_speech_frame_index (frame_energy_of frames) thr)
                           - real (first_speech_frame_index (frame_energy_of frames) thr) + 1)
                          * 512 / real sr,
                        1 - ((real (last_speech_frame_index (frame_energy_of frames) thr)
                           - real (first_speech_frame_index (frame_energy_of frames) thr) + 1)
                          * 512 / real sr) / dur)
                  else (0, 1))"
proof -
  obtain frames where fr: "librosa_util_frame y 2048 512 = Inr frames" and ne: "frames \<noteq> []"
    using librosa_util_frame_ok [of 2048 y 512] len by auto
  let ?E = "frame_energy_of frames"
  have "?E \<noteq> []" using ne by (simp add: frame_energy_of_def)
  then obtain thr where thr: "np_percentile ?E 20 = Inr thr"
    using np_percentile_ok [of ?E 20] by auto
  let ?first = "first_speech_frame_index ?E thr"
  let ?last = "last_speech_frame_index ?E thr"
  have "compute_silence y sr dur =
          Inr (if \<exists>e \<in> set ?E. e > thr
               then ((real ?last - real ?first + 1) * 512 / real sr,
                     1 - ((real ?last - real ?first + 1) * 512 / real sr) / dur)
               else (0, 1))"
  proof (cases "\<exists>e \<in> set ?E. e > thr")
    case False
    then have "True \<notin> set (map (\<lambda>e. e > thr) ?E)" by auto
    then show ?thesis
      using False by (simp add: compute_silence_def fr thr Let_def del: set_map)
  next
    case True
    then have any: "True \<in> set (map (\<lambda>e. e > thr) ?E)" by auto
    have a1: "np_argmax (map (\<lambda>e. e > thr) ?E) = ?first"
      using np_argmax_map [of ?E "\<lambda>e. e > thr"] True
      by (simp add: first_speech_frame_index_def)
    have ex': "\<exists>e \<in> set (rev ?E). e > thr" using True by simp
    have a2: "np_argmax (rev (map (\<lambda>e. e > thr) ?E)) =
                length (takeWhile (\<lambda>e. \<not> e > thr) (rev ?E))"
      using np_argmax_map [of "rev ?E" "\<lambda>e. e > thr"] ex' by (simp add: rev_map)
    have short: "length (takeWhile (\<lambda>e. \<not> e > thr) (rev ?E)) < length ?E"
      using takeWhile_not_short [of "rev ?E" "\<lambda>e. e > thr"] ex' by simp
    have a3: "length (map (\<lambda>e. e > thr) ?E) - np_argmax (rev (map (\<lambda>e. e > thr) ?E)) = ?last + 1"
      using short by (simp add: a2 last_speech_frame_index_def)
    have le: "?first \<le> ?last"
      using first_speech_frame_index_props(3) [OF True]
        last_speech_frame_index_props(2) [OF True]
      by (meson not_le_imp_less)
    have eq: "real ((?last + 1) * 512) / real sr - real (?first * 512) / real sr
                = (real ?last - real ?first + 1) * 512 / real sr"
    proof -
      have "real ((?last + 1) * 512) - real (?first * 512) = (real ?last - real ?first + 1) * 512"
        by (simp add: algebra_simps)
      then show ?thesis
        by (simp only: diff_divide_distrib [symmetric])
    qed
    show ?thesis
      using True any
      by (simp only: compute_silence_def fr thr Let_def sum.case if_True a1 a3 eq)
  qed
  then show ?thesis using fr thr by blast
qed

text \<open>
  Claim C4 as stated takes the effective duration to be (last speech frame index minus
  first speech frame index) times the hop length over the sample rate. On a buffer of
  two frames with one click in the second frame the frame energies are [0, 1], the
  threshold is 1/5, the only speech frame is frame 1, and the analyzer returns an
  effective duration of 512/22050 s and a silence ratio of 4/5, where the formula of
  the claim gives 0 s and 1.
\<close>

theorem C4_one_speech_frame_counterexample:
  "librosa_util_frame late_click 2048 512
     = Inr [replicate 2048 0, replicate 1588 0 @ 1 # replicate 459 0]
   \<and> frame_energy_of [replicate 2048 0, replicate 1588 0 @ 1 # replicate 459 0] = [0, 1]
   \<and> np_percentile [0, 1] 20 = Inr (1 / 5)
   \<and> compute_silence late_click 22050 (2560 / 22050) = Inr (512 / 22050, 4 / 5)
   \<and> spec_silenceMetrics [0, 1] (1 / 5) 22050 (2560 / 22050) = (0, 1)"
proof -
  have "compute_silence late_click 22050 (2560 / 22050) = Inr (512 / 22050, 4 / 5)"
    by (simp add: compute_silence_def late_click_frames late_click_energy percentile_0_1
        np_argmax_def Let_def)
  moreover have "spec_silenceMetrics [0, 1] (1 / 5) 22050 (2560 / 22050) = (0, 1)"
    by (simp add: spec_silenceMetrics_def first_speech_frame_index_def
        last_speech_frame_index_def)
  ultimately show ?thesis
    using late_click_frames late_click_energy percentile_0_1 by simp
qed

text \<open>
  Claim C4, amended. For every buffer of at least one frame (2048 samples) and a
  positive sample rate, the energy threshold is the 20th percentile of the per-frame
  energies (frame length 2048, hop 512). If no frame's energy exceeds the threshold
  the effective duration is 0 and the silence ratio is 1. Otherwise the effective
  duration is (last speech frame index minus first speech frame index, plus one)
  times the hop length over the sample rate, the end of the speech being the frame
  after the last speech frame, and the silence ratio is 1 minus the effective
  duration over the total duration. Here the first and the last speech frame index
  are the least and the greatest index of a frame whose energy exceeds the threshold.
\<close>

theorem C4_silence_metrics_amended:
  assumes "2048 \<le> length y" and "0 < sr"
  shows "\<exists>frames thr first last.
           librosa_util_frame y 2048 512 = Inr frames
         \<and> np_percentile (frame_energy_of frames) 20 = Inr thr
         \<and> first = first_speech_frame_index (frame_energy_of frames) thr
         \<and> last = last_speech_frame_index (frame_energy_of frames) thr
         \<and> compute_silence y sr (real (length y) / real sr) =
             Inr (if \<exists>e \<in> set (frame_energy_of frames). e > thr
                  then ((real last - real first + 1) * 512 / real sr,
                        1 - ((real last - real first + 1) * 512 / real sr)
                              / (real (length y) / real sr))
                  else (0, 1))
         \<and> ((\<exists>e \<in> set (frame_energy_of frames). e > thr) \<longrightarrow>
               first \<le> last \<and> last < length frames
             \<and> frame_energy_of frames ! first > thr
             \<and> frame_energy_of frames ! last > thr
             \<and> (\<forall>i < length frames.
                   frame_energy_of frames ! i > thr \<longrightarrow> first \<le> i \<and> i \<le> last))"
proof -
  obtain frames thr where fr: "librosa_util_frame y 2048 512 = Inr frames"
    and thr: "np_percentile (frame_energy_of frames) 20 = Inr thr"
    and cs: "compute_silence y sr (real (length y) / real sr) =
             Inr (if \<exists>e \<in> set (frame_energy_of frames). e > thr
                  then ((real (last_speech_frame_index (frame_energy_of frames) thr)
                           - real (first_speech_frame_index (frame_energy_of frames) thr) + 1)
                          * 512 / real sr,
                        1 - ((real (last_speech_frame_index (frame_energy_of frames) thr)
                           - real (first_speech_frame_index (frame_energy_of frames) thr) + 1)
                          * 512 / real sr) / (real (length y) / real sr))
                  else (0, 1))"
    using compute_silence_indices [OF assms(1), of sr "real (length y) / real sr"] by blast
  let ?E = "frame_energy_of frames"
  let ?first = "first_speech_frame_index ?E thr"
  let ?last = "last_speech_frame_index ?E thr"
  have len: "length ?E = length frames" by (simp add: frame_energy_of_def)
  have props: "?first \<le> ?last \<and> ?last < length frames \<and> ?E ! ?first > thr \<and> ?E ! ?last > thr
      \<and> (\<forall>i < length frames. ?E ! i > thr \<longrightarrow> ?first \<le> i \<and> i \<le> ?last)"
    if ex: "\<exists>e \<in> set ?E. e > thr"
  proof -
    have f3: "\<forall>i < ?first. \<not> ?E ! i > thr" using first_speech_frame_index_props(3) [OF ex] .
    have l1: "?last < length ?E" using last_speech_frame_index_props(1) [OF ex] .
    have l2: "?E ! ?last > thr" using last_speech_frame_index_props(2) [OF ex] .
    have l3: "\<forall>i. ?last < i \<and> i < length ?E \<longrightarrow> \<not> ?E ! i > thr"
      using last_speech_frame_index_props(3) [OF ex] .
    have f2: "?E ! ?first > thr" using first_speech_frame_index_props(2) [OF ex] .
    have "?first \<le> ?last" using f3 l2 by (meson not_le_imp_less)
    moreover have "\<forall>i < length frames. ?E ! i > thr \<longrightarrow> ?first \<le> i \<and> i \<le> ?last"
      using f3 l3 len by (metis not_le_imp_less)
    ultimately show ?thesis using l1 l2 f2 len by simp
  qed
  show ?thesis
    using fr thr cs props by blast
qed

theorem C4_silence_metrics_amended_witness:
  "(2048::nat) \<le> length late_click \<and> (0::nat) < 22050
   \<and> (\<exists>frames thr first last.
           librosa_util_frame late_click 2048 512 = Inr frames
         \<and> np_percentile (frame_energy_of frames) 20 = Inr thr
         \<and> first = first_speech_frame_index (frame_energy_of frames) thr
         \<and> last = last_speech_frame_index (frame_energy_of frames) thr
         \<and> first = 1 \<and> last = 1
         \<and> compute_silence late_click 22050 (real (length late_click) / real 22050) =
             Inr ((real last - real first + 1) * 512 / real 22050, 4 / 5))"
proof -
  have len: "(2048::nat) \<le> length late_click" by (simp add: late_click_def)
  have pos: "(0::nat) < 22050" by simp
  from C4_silence_metrics_amended [OF len pos]
  obtain frames thr first last where
    fr: "librosa_util_frame late_click 2048 512 = Inr frames"
    and thr: "np_percentile (frame_energy_of frames) 20 = Inr thr"
    and f: "first = first_speech_frame_index (frame_energy_of frames) thr"
    and l: "last = last_speech_frame_index (frame_energy_of frames) thr"
    and cs: "compute_silence late_click 22050 (real (length late_click) / real 22050) =
             Inr (if \<exists>e \<in> set (frame_energy_of frames). e > thr
                  then ((real last - real first + 1) * 512 / real 22050,
                        1 - ((real last - real first + 1) * 512 / real 22050)
                              / (real (length late_click) / real 22050))
                  else (0, 1))"
    by blast
  have frames: "frames = [replicate 2048 0, replicate 1588 0 @ 1 # replicate 459 0]"
    using fr late_click_frames by simp
  have E: "frame_energy_of frames = [0, 1]" using frames late_click_energy by simp
  have t: "thr = 1 / 5" using thr E percentile_0_1 by simp
  have f1: "first = 1" using f E t by (simp add: first_speech_frame_index_def)
  have l1: "last = 1" using l E t by (simp add: last_speech_frame_index_def)
  have n: "length late_click = 2560" by (simp add: late_click_def)
  have "compute_silence late_click 22050 (real (length late_click) / real 22050) =
          Inr ((real last - real first + 1) * 512 / real 22050, 4 / 5)"
    using cs E t f1 l1 n by simp
  then show ?thesis using len pos fr thr f l f1 l1 by blast
qed

subsection \<open>The analysis of one file\<close>

lemma compute_snr_estimate_fails: "isl (compute_snr_estimate rms) \<longleftrightarrow> rms = []"
  by (auto simp add: compute_snr_estimate_def np_percentile_def Let_def split: sum.splits)

lemma compute_silence_fails: "isl (compute_silence y sr d) \<longleftrightarrow> length y < 2048"
proof (cases "length y < 2048")
  case True
  then show ?thesis by (simp add: compute_silence_def librosa_util_frame_def)
next
  case False
  then have "2048 \<le> length y" by simp
  from compute_silence_indices [OF this, of sr d] show ?thesis using False by auto
qed

lemma librosa_load_Inr:
  "librosa_load files p = Inr (y, sr) \<longleftrightarrow> files p = Some (Audio y sr)"
  by (auto simp add: librosa_load_def split: option.splits audio_file.splits)

lemma analyze_body_load_fails:
  "librosa_load files p = Inl e \<Longrightarrow> analyze_body lib files p = Inl e"
  by (simp add: analyze_body_def)

lemma analyze_body_zero_rate:
  "files p = Some (Audio y 0) \<Longrightarrow> analyze_body lib files p = Inl ZeroDivisionError"
  by (simp add: analyze_body_def librosa_load_def)

lemma analyze_body_rms_fails:
  assumes "files p = Some (Audio y sr)"
    and "sr \<noteq> 0"
    and "feature_rms lib y = Inl e"
  shows "analyze_body lib files p = Inl e"
  using assms by (simp add: analyze_body_def librosa_load_def)

lemma analyze_body_zcr_fails:
  assumes "files p = Some (Audio y sr)"
    and "sr \<noteq> 0"
    and "feature_rms lib y = Inr rms"
    and "feature_zero_crossing_rate lib y = Inl e"
  shows "analyze_body lib files p = Inl e"
  using assms by (simp add: analyze_body_def librosa_load_def)

lemma analyze_body_cen_fails:
  assumes "files p = Some (Audio y sr)"
    and "sr \<noteq> 0"
    and "feature_rms lib y = Inr rms"
    and "feature_zero_crossing_rate lib y = Inr zcr"
    and "feature_spectral_centroid lib y sr = Inl e"
  shows "analyze_body lib files p = Inl e"
  using assms by (simp add: analyze_body_def librosa_load_def)

lemma analyze_body_snr_fails:
  assumes "files p = Some (Audio y sr)"
    and "sr \<noteq> 0"
    and "feature_rms lib y = Inr rms"
    and "feature_zero_crossing_rate lib y = Inr zcr"
    and "feature_spectral_centroid lib y sr = Inr cen"
    and "compute_snr_estimate rms = Inl e"
  shows "analyze_body lib files p = Inl e"
  using assms by (simp add: analyze_body_def librosa_load_def)

lemma analyze_body_rol_fails:
  assumes "files p = Some (Audio y sr)"
    and "sr \<noteq> 0"
    and "feature_rms lib y = Inr rms"
    and "feature_zero_crossing_rate lib y = Inr zcr"
    and "feature_spectral_centroid lib y sr = Inr cen"
    and "compute_snr_estimate rms = Inr snr"
    and "feature_spectral_rolloff lib y sr = Inl e"
  shows "analyze_body lib files p = Inl e"
  using assms by (simp add: analyze_body_def librosa_load_def)

lemma analyze_body_bw_fails:
  assumes "files p = Some (Audio y sr)"
    and "sr \<noteq> 0"
    and "feature_rms lib y = Inr rms"
    and "feature_zero_crossing_rate lib y = Inr zcr"
    and "feature_spectral_centroid lib y sr = Inr cen"
    and "compute_snr_estimate rms = Inr snr"
    and "feature_spectral_rolloff lib y sr = Inr rol"
    and "feature_spectral_bandwidth lib y sr = Inl e"
  shows "analyze_body lib files p = Inl e"
  using assms by (simp add: analyze_body_def librosa_load_def)

lemma analyze_body_sil_fails:
  assumes "files p = Some (Audio y sr)"
    and "sr \<noteq> 0"
    and "feature_rms lib y = Inr rms"
    and "feature_zero_crossing_rate lib y = Inr zcr"
    and "feature_spectral_centroid lib y sr = Inr cen"
    and "compute_snr_estimate rms = Inr snr"
    and "feature_spectral_rolloff lib y sr = Inr rol"
    and "feature_spectral_bandwidth lib y sr = Inr bw"
    and "compute_silence y sr (real (length y) / real sr) = Inl e"
  shows "analyze_body lib files p = Inl e"
  using assms by (simp add: analyze_body_def librosa_load_def)

lemma analyze_body_succeeds:
  assumes "files p = Some (Audio y sr)"
    and "sr \<noteq> 0"
    and "feature_rms lib y = Inr rms"
    and "feature_zero_crossing_rate lib y = Inr zcr"
    and "feature_spectral_centroid lib y sr = Inr cen"
    and "compute_snr_estimate rms = Inr snr"
    and "feature_spectral_rolloff lib y sr = Inr rol"
    and "feature_spectral_bandwidth lib y sr = Inr bw"
    and "compute_silence y sr (real (length y) / real sr) = Inr (effective, silence)"
  shows "analyze_body lib files p = Inr
      \<lparr> file_path = p,
        filename = path_name lib p,
        sample_rate = sr,
        duration = real (length y) / real sr,
        file_size_mb = real (st_size lib (Audio y sr)) / (1024 * 1024),
        num_samples = length y,
        rms_mean = np_mean rms,
        rms_std = np_std rms,
        zcr_mean = np_mean zcr,
        zcr_std = np_std zcr,
        spectral_centroid_mean = np_mean cen,
        snr_estimate = snr,
        spectral_rolloff_mean = np_mean rol,
        spectral_bandwidth_mean = np_mean bw,
        harmonic_noise_ratio = compute_harmonic_noise_ratio lib y,
        effective_duration = effective,
        silence_ratio = silence,
        quality_score = compute_quality_score (real (length y) / real sr) snr
                          (compute_harmonic_noise_ratio lib y) silence \<rparr>"
  using assms by (simp add: analyze_body_def librosa_load_def Let_def)

lemma analyze_body_fails:
  "isl (analyze_body lib files p) \<longleftrightarrow> raises_outside_hpss lib files p"
proof (cases "librosa_load files p")
  case (Inl e)
  then show ?thesis by (simp add: analyze_body_load_fails raises_outside_hpss_def)
next
  case (Inr ysr)
  obtain y sr where ysr: "ysr = (y, sr)" by (cases ysr)
  have ff: "files p = Some (Audio y sr)" using Inr ysr by (simp add: librosa_load_Inr)
  have R: "raises_outside_hpss lib files p \<longleftrightarrow>
          sr = 0
        \<or> isl (feature_rms lib y) \<or> feature_rms lib y = Inr []
        \<or> isl (feature_zero_crossing_rate lib y)
        \<or> isl (feature_spectral_centroid lib y sr)
        \<or> isl (feature_spectral_rolloff lib y sr)
        \<or> isl (feature_spectral_bandwidth lib y sr)
        \<or> length y < 2048"
    by (simp add: raises_outside_hpss_def Inr ysr)
  show ?thesis
  proof (cases "sr = 0")
    case True
    then show ?thesis using analyze_body_zero_rate [of files p y lib] ff R by simp
  next
    case nz: False
    show ?thesis
    proof (cases "feature_rms lib y")
      case (Inl e)
      then have "analyze_body lib files p = Inl e"
        using analyze_body_rms_fails [where files = files and p = p and lib = lib, OF ff nz] by simp
      then show ?thesis using Inl R by auto
    next
      case rms_ok: (Inr rms)
      show ?thesis
      proof (cases "feature_zero_crossing_rate lib y")
        case (Inl e)
        then have "analyze_body lib files p = Inl e"
          using analyze_body_zcr_fails [where files = files and p = p and lib = lib, OF ff nz rms_ok] by simp
        then show ?thesis using Inl R by auto
      next
        case zcr_ok: (Inr zcr)
        show ?thesis
        proof (cases "feature_spectral_centroid lib y sr")
          case (Inl e)
          then have "analyze_body lib files p = Inl e"
            using analyze_body_cen_fails [where files = files and p = p and lib = lib, OF ff nz rms_ok zcr_ok] by simp
          then show ?thesis using Inl R by auto
        next
          case cen_ok: (Inr cen)
          show ?thesis
          proof (cases "compute_snr_estimate rms")
            case (Inl e)
            then have "analyze_body lib files p = Inl e"
              using analyze_body_snr_fails [where files = files and p = p and lib = lib, OF ff nz rms_ok zcr_ok cen_ok] by simp
            then show ?thesis using Inl R compute_snr_estimate_fails [of rms] rms_ok by auto
          next
            case snr_ok: (Inr snr)
            show ?thesis
            proof (cases "feature_spectral_rolloff lib y sr")
              case (Inl e)
              then have "analyze_body lib files p = Inl e"
                using analyze_body_rol_fails [where files = files and p = p and lib = lib, OF ff nz rms_ok zcr_ok cen_ok snr_ok] by simp
              then show ?thesis using Inl R by auto
            next
              case rol_ok: (Inr rol)
              show ?thesis
              proof (cases "feature_spectral_bandwidth lib y sr")
                case (Inl e)
                then have "analyze_body lib files p = Inl e"
                  using analyze_body_bw_fails [where files = files and p = p and lib = lib, OF ff nz rms_ok zcr_ok cen_ok snr_ok rol_ok] by simp
                then show ?thesis using Inl R by auto
              next
                case bw_ok: (Inr bw)
                show ?thesis
                proof (cases "compute_silence y sr (real (length y) / real sr)")
                  case (Inl e)
                  then have "analyze_body lib files p = Inl e"
                    using analyze_body_sil_fails [where files = files and p = p and lib = lib, OF ff nz rms_ok zcr_ok cen_ok snr_ok rol_ok bw_ok] by simp
                  then show ?thesis using Inl R compute_silence_fails [of y sr "real (length y) / real sr"] by auto
                next
                  case sil_ok: (Inr sil)
                  obtain effective silence where es: "sil = (effective, silence)" by (cases sil)
                  have "\<not> isl (analyze_body lib files p)"
                    using analyze_body_succeeds [where files = files and p = p and lib = lib, OF ff nz rms_ok zcr_ok cen_ok snr_ok rol_ok bw_ok sil_ok [unfolded es]] sil_ok es by simp
                  moreover have "\<not> raises_outside_hpss lib files p"
                    using R nz rms_ok zcr_ok cen_ok rol_ok bw_ok snr_ok sil_ok
                      compute_snr_estimate_fails [of rms] compute_silence_fails [of y sr "real (length y) / real sr"]
                    by auto
                  ultimately show ?thesis by simp
                qed
              qed
            qed
          qed
        qed
      qed
    qed
  qed
qed

lemma analyze_audio_file_None:
  "analyze_audio_file lib files p = None \<longleftrightarrow> raises_outside_hpss lib files p"
  using analyze_body_fails [of lib files p]
  by (cases "analyze_body lib files p") (simp_all add: analyze_audio_file_def)

lemma foldl_analyze_step:
  "foldl (analyze_step lib files) acc fs =
     acc @ map (\<lambda>f. the (analyze_audio_file lib files f))
             (filter (\<lambda>f. analyze_audio_file lib files f \<noteq> None) fs)"
  by (induction fs arbitrary: acc) (auto simp add: analyze_step_def split: option.splits)

lemma harmonic_sentinel:
  "isl (effects_hpss lib y) \<Longrightarrow> compute_harmonic_noise_ratio lib y = 1"
  by (cases "effects_hpss lib y") (simp_all add: compute_harmonic_noise_ratio_def)

lemma analyze_audio_file_Some:
  assumes "\<not> raises_outside_hpss lib files p"
  shows "\<exists>y sr m. files p = Some (Audio y sr) \<and> analyze_audio_file lib files p = Some m
           \<and> harmonic_noise_ratio m = compute_harmonic_noise_ratio lib y
           \<and> duration m = real (length y) / real sr
           \<and> quality_score m =
               compute_quality_score (duration m) (snr_estimate m) (harmonic_noise_ratio m)
                 (silence_ratio m)
           \<and> compute_snr_estimate (projr (feature_rms lib y)) = Inr (snr_estimate m)
           \<and> compute_silence y sr (real (length y) / real sr)
               = Inr (effective_duration m, silence_ratio m)"
proof -
  from assms obtain y sr where ld: "librosa_load files p = Inr (y, sr)"
    by (cases "librosa_load files p") (auto simp add: raises_outside_hpss_def)
  then have ff: "files p = Some (Audio y sr)" by (simp add: librosa_load_Inr)
  from assms ld have nz: "sr \<noteq> 0" and len: "\<not> length y < 2048"
    and a: "\<not> isl (feature_rms lib y)" "feature_rms lib y \<noteq> Inr []"
       "\<not> isl (feature_zero_crossing_rate lib y)"
       "\<not> isl (feature_spectral_centroid lib y sr)"
       "\<not> isl (feature_spectral_rolloff lib y sr)"
       "\<not> isl (feature_spectral_bandwidth lib y sr)"
    by (simp_all add: raises_outside_hpss_def)
  from a obtain rms zcr cen rol bw where
    rms: "feature_rms lib y = Inr rms" and zcr: "feature_zero_crossing_rate lib y = Inr zcr"
    and cen: "feature_spectral_centroid lib y sr = Inr cen"
    and rol: "feature_spectral_rolloff lib y sr = Inr rol"
    and bw: "feature_spectral_bandwidth lib y sr = Inr bw"
    by (metis sum.collapse(2))
  have "rms \<noteq> []" using a(2) rms by simp
  then obtain snr where snr: "compute_snr_estimate rms = Inr snr"
    using compute_snr_estimate_fails [of rms] by (cases "compute_snr_estimate rms") auto
  obtain effective silence where
    sil: "compute_silence y sr (real (length y) / real sr) = Inr (effective, silence)"
    using compute_silence_fails [of y sr "real (length y) / real sr"] len
    by (cases "compute_silence y sr (real (length y) / real sr)") auto
  note ok = analyze_body_succeeds [where files = files and p = p and lib = lib,
      OF ff nz rms zcr cen snr rol bw sil]
  show ?thesis
    using ff snr sil rms by (simp add: analyze_audio_file_def ok)
qed

lemma length_late_click: "length late_click = 2560"
  by (simp add: late_click_def)

lemma clip_not_raising: "\<not> raises_outside_hpss failing_library demo_files ''clip.wav''"
  by (simp add: raises_outside_hpss_def librosa_load_def demo_files_def failing_library_def
      stub_library_def length_late_click)

lemma short_raising: "raises_outside_hpss failing_library demo_files ''short.wav''"
  by (simp add: raises_outside_hpss_def librosa_load_def demo_files_def)

lemma clip_hpss_fails: "isl (effects_hpss failing_library late_click)"
  by (simp add: failing_library_def)

text \<open>
  Claim C10 as stated says that an exception raised anywhere during the analysis of a
  file, any feature computation included, makes the analysis return None. With a
  harmonic decomposition that raises, the analysis of the two-frame clip does not
  return None: the inner handler sets the harmonic ratio to 1 and the record is
  returned.
\<close>

theorem C10_hpss_failure_counterexample:
  "effects_hpss failing_library late_click = Inl LibraryError
   \<and> analyze_audio_file failing_library demo_files ''clip.wav'' \<noteq> None
   \<and> map_option harmonic_noise_ratio (analyze_audio_file failing_library demo_files ''clip.wav'')
       = Some 1"
proof -
  have f: "demo_files ''clip.wav'' = Some (Audio late_click 22050)"
    by (simp add: demo_files_def)
  obtain y sr m where "demo_files ''clip.wav'' = Some (Audio y sr)"
    and m: "analyze_audio_file failing_library demo_files ''clip.wav'' = Some m"
    and h: "harmonic_noise_ratio m = compute_harmonic_noise_ratio failing_library y"
    using analyze_audio_file_Some [OF clip_not_raising] by blast
  then have "y = late_click" using f by simp
  then have "harmonic_noise_ratio m = 1"
    using h harmonic_sentinel [OF clip_hpss_fails] by simp
  then show ?thesis using m by (simp add: failing_library_def)
qed

text \<open>
  Claim C10, amended. For every file, the analysis returns None, without propagating
  an exception, exactly when a step other than the harmonic decomposition raises:
  decoding, the division by a zero sample rate, a feature call, the percentile of an
  empty RMS series, or framing a buffer shorter than a frame. When only the harmonic
  decomposition raises, the analysis returns a record whose harmonic ratio is 1. The
  batch analysis appends the records of the files whose analysis is not None, in the
  order of the files, omits the others while going through every file, and sorts the
  collection by descending score.
\<close>

theorem C10_analysis_exceptions_amended:
  "(analyze_audio_file lib files p = None \<longleftrightarrow> raises_outside_hpss lib files p)
   \<and> (\<forall>y sr. files p = Some (Audio y sr) \<and> \<not> raises_outside_hpss lib files p
               \<and> isl (effects_hpss lib y)
        \<longrightarrow> (\<exists>m. analyze_audio_file lib files p = Some m \<and> harmonic_noise_ratio m = 1))
   \<and> analyze_all_audio lib files True audio_files results =
       (let r = sort_key (\<lambda>x. - quality_score x)
                 (results @ map (\<lambda>f. the (analyze_audio_file lib files f))
                             (filter (\<lambda>f. \<not> raises_outside_hpss lib files f) audio_files))
        in (r, r))"
proof (intro conjI allI impI)
  show "analyze_audio_file lib files p = None \<longleftrightarrow> raises_outside_hpss lib files p"
    by (rule analyze_audio_file_None)
next
  fix y sr
  assume a: "files p = Some (Audio y sr) \<and> \<not> raises_outside_hpss lib files p
               \<and> isl (effects_hpss lib y)"
  then obtain y' sr' m where "files p = Some (Audio y' sr')"
    and m: "analyze_audio_file lib files p = Some m"
    and h: "harmonic_noise_ratio m = compute_harmonic_noise_ratio lib y'"
    using analyze_audio_file_Some [of lib files p] by blast
  then have "y' = y" using a by simp
  then have "harmonic_noise_ratio m = 1" using h harmonic_sentinel a by simp
  then show "\<exists>m. analyze_audio_file lib files p = Some m \<and> harmonic_noise_ratio m = 1"
    using m by simp
next
  have "(\<lambda>f. analyze_audio_file lib files f \<noteq> None) = (\<lambda>f. \<not> raises_outside_hpss lib files f)"
    by (simp add: analyze_audio_file_None fun_eq_iff)
  then show "analyze_all_audio lib files True audio_files results =
       (let r = sort_key (\<lambda>x. - quality_score x)
                 (results @ map (\<lambda>f. the (analyze_audio_file lib files f))
                             (filter (\<lambda>f. \<not> raises_outside_hpss lib files f) audio_files))
        in (r, r))"
    by (simp add: analyze_all_audio_def foldl_analyze_step Let_def)
qed

theorem C10_analysis_exceptions_amended_witness:
  "demo_files ''clip.wav'' = Some (Audio late_click 22050)
   \<and> \<not> raises_outside_hpss failing_library demo_files ''clip.wav''
   \<and> isl (effects_hpss failing_library late_click)
   \<and> (\<exists>m. analyze_audio_file failing_library demo_files ''clip.wav'' = Some m
          \<and> harmonic_noise_ratio m = 1)
   \<and> raises_outside_hpss failing_library demo_files ''short.wav''
   \<and> analyze_audio_file failing_library demo_files ''short.wav'' = None
   \<and> fst (analyze_all_audio failing_library demo_files True [''short.wav'', ''clip.wav''] [])
       = [the (analyze_audio_file failing_library demo_files ''clip.wav'')]"
proof -
  have f: "demo_files ''clip.wav'' = Some (Audio late_click 22050)"
    by (simp add: demo_files_def)
  note T1 = C10_analysis_exceptions_amended
    [of failing_library demo_files "''clip.wav''" "[''short.wav'', ''clip.wav'']" "[]"]
  note T2 = C10_analysis_exceptions_amended
    [of failing_library demo_files "''short.wav''" "[]" "[]"]
  have "\<exists>m. analyze_audio_file failing_library demo_files ''clip.wav'' = Some m
          \<and> harmonic_noise_ratio m = 1"
    using T1 f clip_not_raising clip_hpss_fails by blast
  moreover have "analyze_audio_file failing_library demo_files ''short.wav'' = None"
    using T2 short_raising by blast
  moreover have "fst (analyze_all_audio failing_library demo_files True [''short.wav'', ''clip.wav''] [])
       = [the (analyze_audio_file failing_library demo_files ''clip.wav'')]"
    using T1 clip_not_raising short_raising by (simp add: Let_def)
  ultimately show ?thesis
    using f clip_not_raising clip_hpss_fails short_raising by blast
qed

subsection \<open>The score of an analysed file\<close>

lemma analyze_audio_file_score:
  assumes "analyze_audio_file lib files p = Some m"
  shows "quality_score m =
           compute_quality_score (duration m) (snr_estimate m) (harmonic_noise_ratio m)
             (silence_ratio m)"
proof -
  have "\<not> raises_outside_hpss lib files p"
    using assms analyze_audio_file_None [of lib files p] by simp
  then obtain m' where "analyze_audio_file lib files p = Some m'"
    and "quality_score m' =
           compute_quality_score (duration m') (snr_estimate m') (harmonic_noise_ratio m')
             (silence_ratio m')"
    using analyze_audio_file_Some [of lib files p] by blast
  then show ?thesis using assms by simp
qed

text \<open>
  Claim C1. For every duration, SNR estimate, harmonic/noise ratio and silence ratio,
  the score the analyzer accumulates is the sum of the four bucket terms selected by
  the fixed thresholds, it lies between 20 and 100 inclusive, the input of scenario B
  (11 s, 25, 2.5, 0.05) scores exactly 100 and the input of scenario C
  (2 s, 1, 0.5, 0.9) scores exactly 25. The score stored in the record of every
  analysed file is this sum for the duration, SNR estimate, harmonic ratio and
  silence ratio stored in the same record.
\<close>

theorem C1_quality_score_sum_of_buckets:
  "compute_quality_score d s h r =
     spec_duration_bucket d + spec_snr_bucket s + spec_harmonic_bucket h + spec_silence_bucket r
   \<and> 20 \<le> compute_quality_score d s h r
   \<and> compute_quality_score d s h r \<le> 100
   \<and> compute_quality_score 11 25 (5 / 2) (1 / 20) = 100
   \<and> compute_quality_score 2 1 (1 / 2) (9 / 10) = 25
   \<and> (analyze_audio_file lib files p = Some m \<longrightarrow>
         quality_score m =
           spec_duration_bucket (duration m) + spec_snr_bucket (snr_estimate m)
             + spec_harmonic_bucket (harmonic_noise_ratio m)
             + spec_silence_bucket (silence_ratio m)
       \<and> 20 \<le> quality_score m \<and> quality_score m \<le> 100)"
proof -
  have range: "\<And>d s h r. 25 \<le> compute_quality_score d s h r
                  \<and> compute_quality_score d s h r \<le> 100"
    by (rule compute_quality_score_range)
  have sum: "\<And>d s h r. compute_quality_score d s h r =
     spec_duration_bucket d + spec_snr_bucket s + spec_harmonic_bucket h + spec_silence_bucket r"
    by (simp add: compute_quality_score_buckets spec_compositeScore_def)
  have rec: "analyze_audio_file lib files p = Some m \<longrightarrow>
         quality_score m =
           spec_duration_bucket (duration m) + spec_snr_bucket (snr_estimate m)
             + spec_harmonic_bucket (harmonic_noise_ratio m)
             + spec_silence_bucket (silence_ratio m)
       \<and> 20 \<le> quality_score m \<and> quality_score m \<le> 100"
  proof
    assume "analyze_audio_file lib files p = Some m"
    then have q: "quality_score m =
           compute_quality_score (duration m) (snr_estimate m) (harmonic_noise_ratio m)
             (silence_ratio m)"
      by (rule analyze_audio_file_score)
    have "25 \<le> quality_score m \<and> quality_score m \<le> 100" unfolding q by (rule range)
    then show "quality_score m =
           spec_duration_bucket (duration m) + spec_snr_bucket (snr_estimate m)
             + spec_harmonic_bucket (harmonic_noise_ratio m)
             + spec_silence_bucket (silence_ratio m)
       \<and> 20 \<le> quality_score m \<and> quality_score m \<le> 100"
      using q sum by simp
  qed
  have "20 \<le> compute_quality_score d s h r" "compute_quality_score d s h r \<le> 100"
    using range [of d s h r] by simp_all
  then show ?thesis
    using sum [of d s h r] rec
    by (simp only: compute_quality_score_scenario_B compute_quality_score_scenario_C simp_thms)
qed

theorem C1_quality_score_sum_of_buckets_witness:
  "\<exists>m. analyze_audio_file failing_library demo_files ''clip.wav'' = Some m
       \<and> quality_score m =
           spec_duration_bucket (duration m) + spec_snr_bucket (snr_estimate m)
             + spec_harmonic_bucket (harmonic_noise_ratio m)
             + spec_silence_bucket (silence_ratio m)
       \<and> 20 \<le> quality_score m \<and> quality_score m \<le> 100"
proof -
  obtain m where m: "analyze_audio_file failing_library demo_files ''clip.wav'' = Some m"
    using analyze_audio_file_Some [OF clip_not_raising] by blast
  show ?thesis
    using C1_quality_score_sum_of_buckets [of 0 0 0 0 failing_library demo_files "''clip.wav''" m] m
    by blast
qed

subsection \<open>Degenerate input\<close>

lemma sort_replicate: "sort (replicate k (c::real)) = replicate k c"
  by (simp add: sorted_sort_id sorted_replicate)

lemma np_percentile_replicate:
  assumes "0 < k" "0 \<le> q" "q \<le> 100"
  shows "np_percentile (replicate k c) q = Inr c"
proof -
  let ?v = "(real k - 1) * (q / 100)"
  have v0: "0 \<le> ?v" using assms by simp
  have "?v \<le> (real k - 1) * 1"
    using assms by (intro mult_left_mono) simp_all
  then have v1: "?v \<le> real (k - 1)" using assms by (simp add: of_nat_diff)
  have "\<lfloor>?v\<rfloor> \<le> int (k - 1)" using v1 by (simp add: floor_le_iff)
  then have p: "nat \<lfloor>?v\<rfloor> < k" using assms by linarith
  have n: "min (nat \<lfloor>?v\<rfloor> + 1) (k - 1) < k" using assms by simp
  show ?thesis
    using assms p n by (simp add: np_percentile_def sort_replicate Let_def)
qed

lemma all_zero_replicate: "set y \<subseteq> {0::real} \<Longrightarrow> y = replicate (length y) 0"
  by (induction y) auto

lemma sum_squares_zero: "set f \<subseteq> {0::real} \<Longrightarrow> sum_list (map (\<lambda>x. x ^ 2) f) = 0"
  by (induction f) auto

lemma frame_energy_of_silence:
  assumes "set y \<subseteq> {0}" "librosa_util_frame y fl hop = Inr frames"
  shows "frame_energy_of frames = replicate (length frames) 0"
proof -
  have fr: "frames = map (\<lambda>i. take fl (drop (i * hop) y)) [0 ..< 1 + (length y - fl) div hop]"
    using assms(2) by (simp add: librosa_util_frame_def split: if_splits)
  have "\<And>i. set (take fl (drop (i * hop) y)) \<subseteq> {0}"
    using assms(1) set_take_subset set_drop_subset by fast
  then have "\<And>i. sum_list (map (\<lambda>x. x ^ 2) (take fl (drop (i * hop) y))) = 0"
    by (rule sum_squares_zero)
  then have "frame_energy_of frames = map (\<lambda>i. 0) [0 ..< 1 + (length y - fl) div hop]"
    by (simp add: frame_energy_of_def fr comp_def)
  also have "\<dots> = replicate (length frames) 0"
    by (simp add: fr map_replicate_const)
  finally show ?thesis .
qed

lemma compute_snr_estimate_silence:
  assumes "rms \<noteq> []" "set rms \<subseteq> {0}"
  shows "compute_snr_estimate rms = Inr 0"
proof -
  have r: "rms = replicate (length rms) 0" using assms(2) by (rule all_zero_replicate)
  have "np_percentile (replicate (length rms) 0) 10 = Inr 0"
    using assms(1) by (intro np_percentile_replicate) simp_all
  then have p: "np_percentile rms 10 = Inr 0" using r by simp
  have "filter (\<lambda>e. e > 0) rms = []" using assms(2) by (auto simp add: filter_empty_conv)
  then show ?thesis by (simp add: compute_snr_estimate_def p)
qed

lemma compute_silence_silence:
  assumes "2048 \<le> length y" "set y \<subseteq> {0}"
  shows "compute_silence y sr d = Inr (0, 1)"
proof -
  obtain frames thr where fr: "librosa_util_frame y 2048 512 = Inr frames"
    and thr: "np_percentile (frame_energy_of frames) 20 = Inr thr"
    and cs: "compute_silence y sr d =
             Inr (if \<exists>e \<in> set (frame_energy_of frames). e > thr
                  then ((real (last_speech_frame_index (frame_energy_of frames) thr)
                           - real (first_speech_frame_index (frame_energy_of frames) thr) + 1)
                          * 512 / real sr,
                        1 - ((real (last_speech_frame_index (frame_energy_of frames) thr)
                           - real (first_speech_frame_index (frame_energy_of frames) thr) + 1)
                          * 512 / real sr) / d)
                  else (0, 1))"
    using compute_silence_indices [OF assms(1), of sr d] by blast
  have E: "frame_energy_of frames = replicate (length frames) 0"
    using frame_energy_of_silence [OF assms(2) fr] .
  have "frames \<noteq> []" using librosa_util_frame_ok [of 2048 y 512] assms(1) fr by auto
  then have "np_percentile (replicate (length frames) 0) 20 = Inr 0"
    by (intro np_percentile_replicate) simp_all
  then have "thr = 0" using thr E by simp
  then have "\<not> (\<exists>e \<in> set (frame_energy_of frames). e > thr)" using E by (metis in_set_replicate less_irrefl)
  then show ?thesis using cs by simp
qed

text \<open>
  Claim C6 as stated says that for every degenerate input, a buffer shorter than one
  frame included, no feature computation fails hard and the composite score is still
  computed. For a buffer of 100 samples every feature call of the library succeeds,
  framing raises, the outer handler catches the exception and the analysis returns
  None: no score is computed.
\<close>

theorem C6_short_buffer_counterexample:
  "demo_files ''short.wav'' = Some (Audio (replicate 100 0) 22050)
   \<and> feature_rms stub_library (replicate 100 0) = Inr [0]
   \<and> librosa_util_frame (replicate 100 0) 2048 512 = Inl ParameterError
   \<and> analyze_audio_file stub_library demo_files ''short.wav'' = None"
proof -
  have "raises_outside_hpss stub_library demo_files ''short.wav''"
    by (simp add: raises_outside_hpss_def librosa_load_def demo_files_def)
  then have "analyze_audio_file stub_library demo_files ''short.wav'' = None"
    by (simp add: analyze_audio_file_None)
  then show ?thesis
    by (simp add: demo_files_def stub_library_def librosa_util_frame_def)
qed

text \<open>
  Claim C6, amended. For an all-zero buffer whose feature calls succeed (the RMS
  series being non-empty and zero): if the buffer has at least one frame (2048
  samples) the analysis returns a record, with the sentinel 0 for the SNR estimate,
  effective duration 0 and silence ratio 1, harmonic ratio 1 whenever the harmonic
  decomposition fails, and the composite score computed from these values; if the
  buffer is shorter than one frame (the empty buffer of zero duration included),
  framing raises inside the analysis and the analysis returns None, no score being
  computed and no exception propagating.
\<close>

theorem C6_degenerate_input_amended:
  assumes "files p = Some (Audio y sr)" and "0 < sr" and "set y \<subseteq> {0}"
    and "feature_rms lib y = Inr rms" and "rms \<noteq> []" and "set rms \<subseteq> {0}"
    and "\<not> isl (feature_zero_crossing_rate lib y)"
    and "\<not> isl (feature_spectral_centroid lib y sr)"
    and "\<not> isl (feature_spectral_rolloff lib y sr)"
    and "\<not> isl (feature_spectral_bandwidth lib y sr)"
  shows "(length y < 2048 \<longrightarrow> analyze_audio_file lib files p = None)
       \<and> (2048 \<le> length y \<longrightarrow>
            (\<exists>m. analyze_audio_file lib files p = Some m
                \<and> snr_estimate m = 0
                \<and> effective_duration m = 0
                \<and> silence_ratio m = 1
                \<and> (isl (effects_hpss lib y) \<longrightarrow> harmonic_noise_ratio m = 1)
                \<and> quality_score m =
                    compute_quality_score (real (length y) / real sr) 0
                      (harmonic_noise_ratio m) 1))"
proof (intro conjI impI)
  assume "length y < 2048"
  then have "raises_outside_hpss lib files p"
    using assms(1) by (simp add: raises_outside_hpss_def librosa_load_def)
  then show "analyze_audio_file lib files p = None" by (simp add: analyze_audio_file_None)
next
  assume len: "2048 \<le> length y"
  have "\<not> raises_outside_hpss lib files p"
    using assms len by (simp add: raises_outside_hpss_def librosa_load_def)
  then obtain y' sr' m where f': "files p = Some (Audio y' sr')"
    and m: "analyze_audio_file lib files p = Some m"
    and h: "harmonic_noise_ratio m = compute_harmonic_noise_ratio lib y'"
    and d: "duration m = real (length y') / real sr'"
    and q: "quality_score m =
               compute_quality_score (duration m) (snr_estimate m) (harmonic_noise_ratio m)
                 (silence_ratio m)"
    and snr: "compute_snr_estimate (projr (feature_rms lib y')) = Inr (snr_estimate m)"
    and sil: "compute_silence y' sr' (real (length y') / real sr')
               = Inr (effective_duration m, silence_ratio m)"
    using analyze_audio_file_Some [of lib files p] by blast
  have eq: "y' = y" "sr' = sr" using f' assms(1) by simp_all
  have s0: "snr_estimate m = 0"
    using snr compute_snr_estimate_silence [OF assms(5) assms(6)] assms(4) eq by simp
  have e0: "effective_duration m = 0 \<and> silence_ratio m = 1"
    using sil compute_silence_silence [OF len assms(3), of sr "real (length y) / real sr"] eq
    by simp
  have h1: "isl (effects_hpss lib y) \<longrightarrow> harmonic_noise_ratio m = 1"
    using h harmonic_sentinel [of lib y] eq by simp
  show "\<exists>m. analyze_audio_file lib files p = Some m
                \<and> snr_estimate m = 0
                \<and> effective_duration m = 0
                \<and> silence_ratio m = 1
                \<and> (isl (effects_hpss lib y) \<longrightarrow> harmonic_noise_ratio m = 1)
                \<and> quality_score m =
                    compute_quality_score (real (length y) / real sr) 0
                      (harmonic_noise_ratio m) 1"
    using m s0 e0 h1 q d eq by simp
qed

theorem C6_degenerate_input_amended_witness:
  "demo_files ''silence.wav'' = Some (Audio (replicate 4096 0) 22050)
   \<and> (0::nat) < 22050
   \<and> set (replicate 4096 (0::real)) \<subseteq> {0}
   \<and> feature_rms failing_library (replicate 4096 0) = Inr [0]
   \<and> isl (effects_hpss failing_library (replicate 4096 0))
   \<and> (2048::nat) \<le> length (replicate 4096 (0::real))
   \<and> (\<exists>m. analyze_audio_file failing_library demo_files ''silence.wav'' = Some m
          \<and> snr_estimate m = 0 \<and> effective_duration m = 0 \<and> silence_ratio m = 1
          \<and> harmonic_noise_ratio m = 1 \<and> quality_score m = 25)
   \<and> demo_files ''short.wav'' = Some (Audio (replicate 100 0) 22050)
   \<and> length (replicate 100 (0::real)) < 2048
   \<and> analyze_audio_file failing_library demo_files ''short.wav'' = None"
proof -
  have f: "demo_files ''silence.wav'' = Some (Audio (replicate 4096 0) 22050)"
    and g: "demo_files ''short.wav'' = Some (Audio (replicate 100 0) 22050)"
    by (simp_all add: demo_files_def)
  have lib: "\<And>y. feature_rms failing_library y = Inr [0]"
    "\<And>y. \<not> isl (feature_zero_crossing_rate failing_library y)"
    "\<And>y sr. \<not> isl (feature_spectral_centroid failing_library y sr)"
    "\<And>y sr. \<not> isl (feature_spectral_rolloff failing_library y sr)"
    "\<And>y sr. \<not> isl (feature_spectral_bandwidth failing_library y sr)"
    "\<And>y. isl (effects_hpss failing_library y)"
    by (simp_all add: failing_library_def stub_library_def)
  have z: "\<And>n. set (replicate n (0::real)) \<subseteq> {0}" by auto
  have r: "[0::real] \<noteq> []" "set [0::real] \<subseteq> {0}" by simp_all
  have pos: "(0::nat) < 22050" by simp
  note T1 = C6_degenerate_input_amended [where files = demo_files and p = "''silence.wav''"
      and lib = failing_library, OF f pos z lib(1) r lib(2) lib(3) lib(4) lib(5)]
  note T2 = C6_degenerate_input_amended [where files = demo_files and p = "''short.wav''"
      and lib = failing_library, OF g pos z lib(1) r lib(2) lib(3) lib(4) lib(5)]
  have "\<exists>m. analyze_audio_file failing_library demo_files ''silence.wav'' = Some m
          \<and> snr_estimate m = 0 \<and> effective_duration m = 0 \<and> silence_ratio m = 1
          \<and> harmonic_noise_ratio m = 1 \<and> quality_score m = 25"
  proof -
    from T1 lib(6) obtain m where
      m: "analyze_audio_file failing_library demo_files ''silence.wav'' = Some m"
      and p: "snr_estimate m = 0" "effective_duration m = 0" "silence_ratio m = 1"
        "harmonic_noise_ratio m = 1"
      and q: "quality_score m = compute_quality_score
                 (real (length (replicate 4096 (0::real))) / real 22050) 0 (harmonic_noise_ratio m) 1"
      by auto
    have "quality_score m = 25" using q p by (simp add: compute_quality_score_def)
    then show ?thesis using m p by simp
  qed
  moreover have "analyze_audio_file failing_library demo_files ''short.wav'' = None"
    using T2 by simp
  ultimately show ?thesis using f g lib(1) lib(6) by simp
qed

subsection \<open>The corpus filter\<close>

lemma foldl_filter_step:
  "foldl (filter_step a b c) acc rs = acc @ filter (passes a b c) rs"
  by (induction rs arbitrary: acc) (simp_all add: filter_step_def passes_def)

text \<open>
  Claim C9. For every record collection and criteria, the filter returns exactly the
  records with quality score at least the minimum score, duration at least the
  minimum duration and silence ratio at most the maximum silence, in the relative
  order of the input (the result is a subsequence of the input), and the analyzer's
  own collection is the same after the call.
\<close>

theorem C9_filter_high_quality:
  "snd (filter_high_quality results min_score min_duration max_silence) =
     filter (\<lambda>r. quality_score r \<ge> min_score \<and> duration r \<ge> min_duration
                  \<and> silence_ratio r \<le> max_silence) results
   \<and> subseq (snd (filter_high_quality results min_score min_duration max_silence)) results
   \<and> fst (filter_high_quality results min_score min_duration max_silence) = results"
proof -
  have "snd (filter_high_quality results min_score min_duration max_silence) =
          filter (passes min_score min_duration max_silence) results"
    by (simp add: filter_high_quality_def foldl_filter_step)
  moreover have "passes min_score min_duration max_silence =
      (\<lambda>r. quality_score r \<ge> min_score \<and> duration r \<ge> min_duration \<and> silence_ratio r \<le> max_silence)"
    by (simp add: passes_def fun_eq_iff)
  ultimately show ?thesis
    by (simp add: filter_high_quality_def)
qed

subsection \<open>Stage 1: normalisation\<close>



lemma np_max_empty: "np_max [] = Inl ValueError"
  by (simp add: np_max_def)






subsection \<open>A run of the pipeline with a failing stage 3\<close>












subsection \<open>Stage 5: the best segment\<close>


















end
